theory Spec2Isabelle
  imports Complex_Main
begin

section \<open>JavaScript numbers\<close>

text \<open>
  A JavaScript Number is an IEEE 754 binary64 value. The finite ones are modelled by the
  rational they denote (\<open>Fin q\<close>); the two zeros are identified, which no operation used
  below can tell apart. Arithmetic computes the exact rational result and rounds it to
  the nearest binary64 value, ties to even (\<open>round_double\<close>).
\<close>

datatype number = NaN | PInf | NInf | Fin rat

function bit_length :: "int \<Rightarrow> int" where
  "bit_length n = (if n \<le> 0 then 0 else 1 + bit_length (n div 2))"
  by pat_completeness auto
termination
  by (relation "measure nat") auto

declare bit_length.simps [simp del]

definition pow_int :: "rat \<Rightarrow> int \<Rightarrow> rat" where
  "pow_int b k = (if 0 \<le> k then b ^ nat k else 1 / b ^ nat (- k))"

text \<open>\<open>ilog2 q\<close> is the binary exponent of a positive rational: \<open>2 ^ ilog2 q \<le> q < 2 ^ (ilog2 q + 1)\<close>.\<close>

definition ilog2 :: "rat \<Rightarrow> int" where
  "ilog2 q = (if 1 \<le> q then bit_length \<lfloor>q\<rfloor> - 1
              else - bit_length (\<lceil>1 / q\<rceil> - 1))"

definition round_half_even :: "rat \<Rightarrow> int" where
  "round_half_even q =
     (let f = \<lfloor>q\<rfloor>; r = q - of_int f
      in if r < 1 / 2 then f
         else if 1 / 2 < r then f + 1
         else if even f then f else f + 1)"

text \<open>
  Rounding of a positive rational: a 53-bit significand \<open>m\<close> at exponent \<open>e\<close>, the exponent
  not below that of the subnormals (\<open>- 1074\<close>); a result of \<open>2 ^ 1024\<close> or more overflows
  to infinity.
\<close>

definition round_pos :: "rat \<Rightarrow> number" where
  "round_pos q =
     (let e = max (ilog2 q - 52) (- 1074);
          m = round_half_even (q / pow_int 2 e)
      in if 1024 < bit_length m + e then PInf else Fin (of_int m * pow_int 2 e))"

fun negate :: "number \<Rightarrow> number" where
  "negate NaN = NaN"
| "negate PInf = NInf"
| "negate NInf = PInf"
| "negate (Fin q) = Fin (- q)"

definition round_double :: "rat \<Rightarrow> number" where
  "round_double q =
     (if q = 0 then Fin 0
      else if 0 < q then round_pos q
      else negate (round_pos (- q)))"

text \<open>The operator \<open>x * y\<close> on Numbers.\<close>

fun fmul :: "number \<Rightarrow> number \<Rightarrow> number" where
  "fmul NaN y = NaN"
| "fmul x NaN = NaN"
| "fmul (Fin a) (Fin b) = round_double (a * b)"
| "fmul (Fin a) PInf = (if a = 0 then NaN else if 0 < a then PInf else NInf)"
| "fmul (Fin a) NInf = (if a = 0 then NaN else if 0 < a then NInf else PInf)"
| "fmul PInf (Fin b) = (if b = 0 then NaN else if 0 < b then PInf else NInf)"
| "fmul NInf (Fin b) = (if b = 0 then NaN else if 0 < b then NInf else PInf)"
| "fmul PInf PInf = PInf"
| "fmul PInf NInf = NInf"
| "fmul NInf PInf = NInf"
| "fmul NInf NInf = PInf"

text \<open>The operator \<open>x - y\<close> on Numbers.\<close>

fun fsub :: "number \<Rightarrow> number \<Rightarrow> number" where
  "fsub NaN y = NaN"
| "fsub x NaN = NaN"
| "fsub (Fin a) (Fin b) = round_double (a - b)"
| "fsub (Fin a) PInf = NInf"
| "fsub (Fin a) NInf = PInf"
| "fsub PInf (Fin b) = PInf"
| "fsub NInf (Fin b) = NInf"
| "fsub PInf PInf = NaN"
| "fsub PInf NInf = PInf"
| "fsub NInf PInf = NInf"
| "fsub NInf NInf = NaN"

text \<open>The comparisons \<open>x >= y\<close> and \<open>x <= y\<close>: false as soon as one side is NaN.\<close>

fun num_le :: "number \<Rightarrow> number \<Rightarrow> bool" where
  "num_le NaN y = False"
| "num_le x NaN = False"
| "num_le NInf y = True"
| "num_le x PInf = True"
| "num_le PInf y = False"
| "num_le x NInf = False"
| "num_le (Fin a) (Fin b) = (a \<le> b)"

definition num_ge :: "number \<Rightarrow> number \<Rightarrow> bool" where
  "num_ge x y = num_le y x"

text \<open>\<open>Math.floor\<close>, and \<open>Math.round\<close>, which rounds a tie towards plus infinity.\<close>

fun Math_floor :: "number \<Rightarrow> number" where
  "Math_floor (Fin q) = Fin (of_int \<lfloor>q\<rfloor>)"
| "Math_floor x = x"

fun Math_round :: "number \<Rightarrow> number" where
  "Math_round (Fin q) = Fin (of_int \<lfloor>q + 1 / 2\<rfloor>)"
| "Math_round x = x"

section \<open>parseFloat\<close>

text \<open>
  \<open>parseFloat\<close> skips leading white space, reads the longest prefix that is a decimal
  literal (sign, digits, fraction, exponent, or \<open>Infinity\<close>) and ignores the rest; with no
  such prefix the result is NaN. Strings are byte strings here, so of the white space
  characters only the ASCII ones are recognised.
\<close>

definition is_digit :: "char \<Rightarrow> bool" where
  "is_digit c = (c \<in> set ''0123456789'')"

definition is_space :: "char \<Rightarrow> bool" where
  "is_space c = ((of_char c :: nat) \<in> {9, 10, 11, 12, 13, 32})"

definition digit_val :: "char \<Rightarrow> int" where
  "digit_val c = int (of_char c) - 48"

fun digits_val :: "int \<Rightarrow> string \<Rightarrow> int" where
  "digits_val acc [] = acc"
| "digits_val acc (c # cs) = digits_val (10 * acc + digit_val c) cs"

fun strip_sign :: "string \<Rightarrow> bool \<times> string" where
  "strip_sign [] = (False, [])"
| "strip_sign (c # cs) =
     (if c = CHR ''-'' then (True, cs)
      else if c = CHR ''+'' then (False, cs)
      else (False, c # cs))"

fun exponent_part :: "string \<Rightarrow> int" where
  "exponent_part [] = 0"
| "exponent_part (c # cs) =
     (if c = CHR ''e'' \<or> c = CHR ''E'' then
        (case strip_sign cs of
           (neg, ds) \<Rightarrow>
             (let es = takeWhile is_digit ds
              in if es = [] then 0
                 else if neg then - digits_val 0 es else digits_val 0 es))
      else 0)"

fun fraction_part :: "string \<Rightarrow> string \<times> string" where
  "fraction_part [] = ([], [])"
| "fraction_part (c # cs) =
     (if c = CHR ''.'' then (takeWhile is_digit cs, dropWhile is_digit cs)
      else ([], c # cs))"

definition parseFloat :: "string \<Rightarrow> number" where
  "parseFloat s =
     (case strip_sign (dropWhile is_space s) of
        (neg, u) \<Rightarrow>
          if take 8 u = ''Infinity'' then (if neg then NInf else PInf)
          else
            (let ip = takeWhile is_digit u
             in case fraction_part (dropWhile is_digit u) of
                  (fp, rest) \<Rightarrow>
                    if ip = [] \<and> fp = [] then NaN
                    else
                      (let mv = of_int (digits_val 0 (ip @ fp))
                                * pow_int 10 (exponent_part rest - int (length fp));
                           v = round_double mv
                       in if neg then negate v else v)))"

section \<open>BigInt\<close>

text \<open>
  What the route's \<open>try\<close> block can catch: a RangeError raised by the engine (its message is
  engine-defined and not empty), or a value thrown by a callee, with its \<open>message\<close> if it
  has one.
\<close>

datatype thrown = RangeError | Thrown "string option"

text \<open>\<open>BigInt(x)\<close> of a Number: a RangeError unless \<open>x\<close> is an integer.\<close>

fun BigInt :: "number \<Rightarrow> thrown + int" where
  "BigInt (Fin q) = (if of_int \<lfloor>q\<rfloor> = q then Inr \<lfloor>q\<rfloor> else Inl RangeError)"
| "BigInt x = Inl RangeError"

text \<open>\<open>b ** e\<close> on BigInts: a RangeError for a negative exponent.\<close>

definition bigint_pow :: "int \<Rightarrow> int \<Rightarrow> thrown + int" where
  "bigint_pow b e = (if e < 0 then Inl RangeError else Inr (b ^ nat e))"

function dec_digits :: "int \<Rightarrow> string" where
  "dec_digits n =
     (if n < 10 then [char_of (48 + n)]
      else dec_digits (n div 10) @ [char_of (48 + n mod 10)])"
  by pat_completeness auto
termination
  by (relation "measure nat") auto

declare dec_digits.simps [simp del]

definition bigint_toString :: "int \<Rightarrow> string" where
  "bigint_toString n = (if n < 0 then CHR ''-'' # dec_digits (- n) else dec_digits n)"

section \<open>Request values\<close>

text \<open>
  A field of a parsed JSON body. \<open>JObject n\<close> is an object or array, which is truthy and
  whose conversion to a Number gives \<open>n\<close>.
\<close>

datatype jsval = JUndefined | JNull | JBool bool | JNum number | JStr string | JObject number

fun falsy :: "jsval \<Rightarrow> bool" where
  "falsy JUndefined = True"
| "falsy JNull = True"
| "falsy (JBool b) = (\<not> b)"
| "falsy (JNum NaN) = True"
| "falsy (JNum (Fin q)) = (q = 0)"
| "falsy (JNum x) = False"
| "falsy (JStr s) = (s = [])"
| "falsy (JObject n) = False"

text \<open>Truthiness of a \<open>string | null | undefined\<close> value.\<close>

definition falsy_str :: "string option \<Rightarrow> bool" where
  "falsy_str s = (s = None \<or> s = Some [])"

section \<open>Amount conversion of the custodial payment route\<close>

text \<open>
  \<open>amountNum\<close> is \<open>typeof usdcAmount === 'string' ? parseFloat(usdcAmount) : usdcAmount\<close>,
  together with the conversion to a Number that the product \<open>amountNum * 100\<close> applies to a
  value that is not a Number.
\<close>

fun amountNum :: "jsval \<Rightarrow> number" where
  "amountNum (JStr s) = parseFloat s"
| "amountNum (JNum n) = n"
| "amountNum (JBool b) = (if b then Fin 1 else Fin 0)"
| "amountNum JNull = Fin 0"
| "amountNum JUndefined = NaN"
| "amountNum (JObject n) = n"

text \<open>
  \<open>(BigInt(Math.floor(amountNum * 100)) * BigInt(10) ** BigInt(decimals - 2)).toString()\<close>,
  the operands evaluated from left to right.
\<close>

definition amountInSmallestUnit :: "jsval \<Rightarrow> number \<Rightarrow> thrown + string" where
  "amountInSmallestUnit usdcAmount decimals =
     (case BigInt (Math_floor (fmul (amountNum usdcAmount) (Fin 100))) of
        Inl t \<Rightarrow> Inl t
      | Inr cents \<Rightarrow>
          (case BigInt (fsub decimals (Fin 2)) of
             Inl t \<Rightarrow> Inl t
           | Inr ex \<Rightarrow>
               (case bigint_pow 10 ex of
                  Inl t \<Rightarrow> Inl t
                | Inr p \<Rightarrow> Inr (bigint_toString (cents * p)))))"

text \<open>The conversion as the specification words it: \<open>round(a * 10^d)\<close>.\<close>

definition spec_convert :: "rat \<Rightarrow> nat \<Rightarrow> int" where
  "spec_convert a d = round (a * 10 ^ d)"

section \<open>The custodial payment route\<close>

text \<open>
  \<open>POST /api/circle/payment\<close>. The services the handler calls (the session, the database,
  the wallet provider) and the process environment are the \<open>world\<close>: each call is a field
  that answers as the service would. A database call answers with either an error or a
  row; a call of the wallet provider's SDK either throws or returns; \<open>req_json\<close> is the
  parsed body, or what parsing or destructuring it threw. The handler returns its response
  together with the calls it made, in order. Of the console output only \<open>console.error\<close>
  is recorded.
\<close>

type_synonym pg_error = string

record user =
  user_id :: string

record wallet_row =
  circle_wallet_id :: string
  blockchain :: string
  address :: string
  wallet_type :: string

record admin_wallet_row =
  admin_circle_wallet_id :: string
  admin_address :: string
  admin_chain :: string

record token =
  token_id :: string
  decimals :: "number option"
  symbol :: "string option"

record token_balance =
  token :: "token option"
  amount :: string

record request_body =
  credits :: jsval
  usdcAmount :: jsval

record create_transaction_request =
  walletId :: string
  destinationAddress :: string
  amounts :: "string list"
  feeLevel :: string
  tokenId :: "string option"

record transaction_record =
  rec_user_id :: string
  rec_wallet_id :: string
  direction :: string
  amount_usdc :: jsval
  credit_amount :: jsval
  exchange_rate :: number
  chain :: string
  asset :: string
  tx_hash :: string
  status :: string
  idempotency_key :: string
  payment_method :: string
  circle_transaction_id :: string

record transaction_row =
  row_id :: string

record world =
  auth_getUser :: "pg_error + user"
  req_json :: "thrown + request_body"
  select_sca_wallet :: "string \<Rightarrow> pg_error + wallet_row"
  select_latest_wallet :: "string \<Rightarrow> pg_error + wallet_row"
  select_admin_wallet :: "pg_error + admin_wallet_row"
  getWalletTokenBalance :: "string \<Rightarrow> thrown + token_balance list option"
  CIRCLE_USDC_TOKEN_ID :: "string option"
  createTransaction :: "create_transaction_request \<Rightarrow> thrown + string option"
  insert_transaction :: "transaction_record \<Rightarrow> pg_error + transaction_row"

datatype logged = Text string | Caught thrown

datatype effect =
    GetUser
  | ReqJson
  | SelectScaWallet string
  | SelectLatestWallet string
  | SelectAdminWallet
  | GetWalletTokenBalance string
  | CreateTransaction create_transaction_request
  | InsertTransaction transaction_record
  | ConsoleError "logged list"

record payment_success =
  success :: bool
  transactionId :: string
  circleTransactionId :: string

datatype error_message = Message string | EngineMessage

datatype 'a response = Response (status_code: nat) (json: "error_message + 'a")

text \<open>\<open>tb.token?.id\<close>, and \<open>tokenBalances?.find((tb) => tb.token?.id === usdcTokenId)\<close>.\<close>

definition token_id_of :: "token_balance \<Rightarrow> string option" where
  "token_id_of tb = map_option token_id (token tb)"

definition find_token :: "token_balance list option \<Rightarrow> string option \<Rightarrow> token_balance option" where
  "find_token tokenBalances usdcTokenId =
     (case tokenBalances of
        None \<Rightarrow> None
      | Some tbs \<Rightarrow> find (\<lambda>tb. token_id_of tb = usdcTokenId) tbs)"

text \<open>\<open>usdcToken.token?.decimals ?? 6\<close>.\<close>

definition decimals_of :: "token_balance \<Rightarrow> number" where
  "decimals_of usdcToken =
     (case token usdcToken of
        None \<Rightarrow> Fin 6
      | Some t \<Rightarrow> (case decimals t of None \<Rightarrow> Fin 6 | Some d \<Rightarrow> d))"

text \<open>\<open>error.message || fallback\<close> of a caught value.\<close>

fun message_or :: "thrown \<Rightarrow> string \<Rightarrow> error_message" where
  "message_or RangeError fallback = EngineMessage"
| "message_or (Thrown None) fallback = Message fallback"
| "message_or (Thrown (Some m)) fallback = Message (if m = [] then fallback else m)"

text \<open>The calls made so far, followed by the rest of the handler.\<close>

definition after_calls :: "effect list \<Rightarrow> 'a \<times> effect list \<Rightarrow> 'a \<times> effect list" where
  "after_calls es p = (fst p, es @ snd p)"

text \<open>Step 4: the record of the transaction, and the response.\<close>

definition new_transaction_record ::
  "user \<Rightarrow> request_body \<Rightarrow> wallet_row \<Rightarrow> string \<Rightarrow> transaction_record" where
  "new_transaction_record u b userWallet circleTxId =
     \<lparr>rec_user_id = user_id u,
      rec_wallet_id = circle_wallet_id userWallet,
      direction = ''credit'',
      amount_usdc = usdcAmount b,
      credit_amount = credits b,
      exchange_rate = Fin 1,
      chain = blockchain userWallet,
      asset = ''USDC'',
      tx_hash = ''pending'',
      status = ''pending'',
      idempotency_key = ''client:'' @ circleTxId,
      payment_method = ''circle_developer_wallet'',
      circle_transaction_id = circleTxId\<rparr>"

definition POST_record ::
  "world \<Rightarrow> user \<Rightarrow> request_body \<Rightarrow> wallet_row \<Rightarrow> string
     \<Rightarrow> (thrown + payment_success response) \<times> effect list" where
  "POST_record w u b userWallet circleTxId =
     (let r = new_transaction_record u b userWallet circleTxId
      in case insert_transaction w r of
           Inl insertError \<Rightarrow>
             (Inr (Response 200 (Inr \<lparr>success = True, transactionId = circleTxId,
                                      circleTransactionId = circleTxId\<rparr>)),
              [InsertTransaction r,
               ConsoleError [Text ''Failed to record transaction:'', Text insertError]])
         | Inr row \<Rightarrow>
             (Inr (Response 200 (Inr \<lparr>success = True,
                     transactionId = (if row_id row = [] then circleTxId else row_id row),
                     circleTransactionId = circleTxId\<rparr>)),
              [InsertTransaction r]))"

text \<open>Step 3: the balance listing, the amount in atoms and the transfer.\<close>

definition POST_transfer ::
  "world \<Rightarrow> user \<Rightarrow> request_body \<Rightarrow> wallet_row \<Rightarrow> admin_wallet_row
     \<Rightarrow> (thrown + payment_success response) \<times> effect list" where
  "POST_transfer w u b userWallet adminWallet =
     (case getWalletTokenBalance w (circle_wallet_id userWallet) of
        Inl t \<Rightarrow> (Inl t, [GetWalletTokenBalance (circle_wallet_id userWallet)])
      | Inr tokenBalances \<Rightarrow>
          (case find_token tokenBalances (CIRCLE_USDC_TOKEN_ID w) of
             None \<Rightarrow>
               (Inr (Response 400 (Inl (Message ''USDC balance not found in wallet.''))),
                [GetWalletTokenBalance (circle_wallet_id userWallet),
                 ConsoleError
                   [Text (''[CRITICAL] USDC with Token ID ''
                          @ (case CIRCLE_USDC_TOKEN_ID w of None \<Rightarrow> ''undefined'' | Some i \<Rightarrow> i)
                          @ '' not found in wallet '' @ circle_wallet_id userWallet)]])
           | Some usdcToken \<Rightarrow>
               (case amountInSmallestUnit (usdcAmount b) (decimals_of usdcToken) of
                  Inl t \<Rightarrow> (Inl t, [GetWalletTokenBalance (circle_wallet_id userWallet)])
                | Inr atoms \<Rightarrow>
                    (let req = \<lparr>walletId = circle_wallet_id userWallet,
                                destinationAddress = admin_address adminWallet,
                                amounts = [atoms],
                                feeLevel = ''MEDIUM'',
                                tokenId = CIRCLE_USDC_TOKEN_ID w\<rparr>;
                         es = [GetWalletTokenBalance (circle_wallet_id userWallet),
                               CreateTransaction req]
                     in case createTransaction w req of
                          Inl t \<Rightarrow> (Inl t, es)
                        | Inr None \<Rightarrow>
                            (Inl (Thrown (Some ''Failed to initiate Circle transaction'')), es)
                        | Inr (Some circleTxId) \<Rightarrow>
                            (if circleTxId = [] then
                               (Inl (Thrown (Some ''Failed to initiate Circle transaction'')), es)
                             else
                               after_calls es (POST_record w u b userWallet circleTxId))))))"

text \<open>Step 1: the user's wallet, an SCA wallet if there is one, else the latest one.\<close>

definition select_user_wallet :: "world \<Rightarrow> user \<Rightarrow> wallet_row option \<times> effect list" where
  "select_user_wallet w u =
     (case select_sca_wallet w (user_id u) of
        Inr userWallet \<Rightarrow> (Some userWallet, [SelectScaWallet (user_id u)])
      | Inl walletError \<Rightarrow>
          (case select_latest_wallet w (user_id u) of
             Inr fallbackWallet \<Rightarrow>
               (Some fallbackWallet,
                [SelectScaWallet (user_id u), SelectLatestWallet (user_id u)])
           | Inl fallbackError \<Rightarrow>
               (None, [SelectScaWallet (user_id u), SelectLatestWallet (user_id u)])))"

text \<open>Step 2: the admin wallet that receives the transfer.\<close>

definition POST_wallets ::
  "world \<Rightarrow> user \<Rightarrow> request_body
     \<Rightarrow> (thrown + payment_success response) \<times> effect list" where
  "POST_wallets w u b =
     (case select_user_wallet w u of
        (None, es) \<Rightarrow>
          (Inr (Response 404 (Inl (Message
             ''Circle Developer Wallet not found. Please create one in the Wallet Demo first.''))),
           es)
      | (Some userWallet, es) \<Rightarrow>
          (case select_admin_wallet w of
             Inl adminError \<Rightarrow>
               (Inr (Response 500 (Inl (Message ''Platform admin wallet not configured''))),
                es @ [SelectAdminWallet])
           | Inr adminWallet \<Rightarrow>
               after_calls (es @ [SelectAdminWallet])
                 (POST_transfer w u b userWallet adminWallet)))"

text \<open>The body of the \<open>try\<close> block, and the handler with its \<open>catch\<close>.\<close>

definition POST_try :: "world \<Rightarrow> (thrown + payment_success response) \<times> effect list" where
  "POST_try w =
     (case auth_getUser w of
        Inl authError \<Rightarrow> (Inr (Response 401 (Inl (Message ''Unauthorized''))), [GetUser])
      | Inr u \<Rightarrow>
          (case req_json w of
             Inl t \<Rightarrow> (Inl t, [GetUser, ReqJson])
           | Inr b \<Rightarrow>
               if falsy (credits b) \<or> falsy (usdcAmount b) then
                 (Inr (Response 400 (Inl (Message ''credits and usdcAmount are required''))),
                  [GetUser, ReqJson])
               else
                 after_calls [GetUser, ReqJson] (POST_wallets w u b)))"

definition POST :: "world \<Rightarrow> payment_success response \<times> effect list" where
  "POST w =
     (case POST_try w of
        (Inr r, es) \<Rightarrow> (r, es)
      | (Inl t, es) \<Rightarrow>
          (Response 500 (Inl (message_or t ''An unexpected error occurred'')),
           es @ [ConsoleError [Text ''Circle payment error:'', Caught t]]))"

text \<open>What a run called and wrote.\<close>

fun created_transactions :: "effect list \<Rightarrow> create_transaction_request list" where
  "created_transactions [] = []"
| "created_transactions (CreateTransaction r # es) = r # created_transactions es"
| "created_transactions (e # es) = created_transactions es"

fun inserted_records :: "effect list \<Rightarrow> transaction_record list" where
  "inserted_records [] = []"
| "inserted_records (InsertTransaction r # es) = r # inserted_records es"
| "inserted_records (e # es) = inserted_records es"

fun balance_requests :: "effect list \<Rightarrow> string list" where
  "balance_requests [] = []"
| "balance_requests (GetWalletTokenBalance i # es) = i # balance_requests es"
| "balance_requests (e # es) = balance_requests es"

text \<open>Calls that reach neither the balance listing, nor the transfer, nor the table.\<close>

definition quiet :: "effect list \<Rightarrow> bool" where
  "quiet es = (balance_requests es = [] \<and> created_transactions es = []
               \<and> inserted_records es = [])"

section \<open>The balance route\<close>

text \<open>\<open>GET /api/circle/balance?walletId=...\<close>, over the same world.\<close>

record balance_body =
  balance :: string
  rawBalance :: "token_balance option"

definition GET_balance :: "world \<Rightarrow> string option \<Rightarrow> balance_body response \<times> effect list" where
  "GET_balance w walletIdParam =
     (case walletIdParam of
        None \<Rightarrow> (Response 400 (Inl (Message ''walletId is required'')), [])
      | Some wid \<Rightarrow>
          if wid = [] then (Response 400 (Inl (Message ''walletId is required'')), [])
          else
            (case auth_getUser w of
               Inl authError \<Rightarrow> (Response 401 (Inl (Message ''Unauthorized'')), [GetUser])
             | Inr u \<Rightarrow>
                 (case getWalletTokenBalance w wid of
                    Inl t \<Rightarrow>
                      (Response 500 (Inl (message_or t ''Failed to fetch balance'')),
                       [GetUser, GetWalletTokenBalance wid,
                        ConsoleError [Text ''Error fetching Circle wallet balance:'', Caught t]])
                  | Inr tokenBalances \<Rightarrow>
                      (case find_token tokenBalances (CIRCLE_USDC_TOKEN_ID w) of
                         None \<Rightarrow>
                           (Response 200 (Inr \<lparr>balance = ''0'', rawBalance = None\<rparr>),
                            [GetUser, GetWalletTokenBalance wid])
                       | Some usdcBalance \<Rightarrow>
                           (Response 200
                              (Inr \<lparr>balance = (if amount usdcBalance = [] then ''0''
                                                else amount usdcBalance),
                                    rawBalance = Some usdcBalance\<rparr>),
                            [GetUser, GetWalletTokenBalance wid])))))"

text \<open>The token ids of a balance listing.\<close>

definition listed_ids :: "token_balance list option \<Rightarrow> string option set" where
  "listed_ids tokenBalances =
     (case tokenBalances of None \<Rightarrow> {} | Some tbs \<Rightarrow> set (map token_id_of tbs))"

section \<open>The purchase card\<close>

text \<open>
  The state of \<open>PurchaseCreditsCard\<close>: what the wallet hooks report (\<open>useAccount\<close>,
  \<open>useChainId\<close>, \<open>useUsdcBalance\<close>) and the \<open>useState\<close> cells that the pay control
  depends on. State that only drives the display is left out.
\<close>

datatype WalletType = External | Circle

definition USDC_PER_CREDIT :: number where
  "USDC_PER_CREDIT = Fin 1"

record card_state =
  externalAddress :: "string option"
  isExternalConnected :: bool
  chainId :: number
  usdcAddress :: "string option"
  externalBalance :: "int option"
  hasExternalBalance :: bool
  isExternalBalanceLoading :: bool
  walletType :: WalletType
  creditsToPurchase :: number
  isSubmitting :: bool
  selectedCircleWalletId :: "string option"
  circleBalance :: "string option"
  destination :: "string option"

definition requiredUsdc :: "card_state \<Rightarrow> number" where
  "requiredUsdc s = fmul (creditsToPurchase s) USDC_PER_CREDIT"

text \<open>\<open>BigInt(Math.round(requiredUsdc * 1_000_000))\<close>; a RangeError here fails the render.\<close>

definition requiredUsdcMicro :: "card_state \<Rightarrow> thrown + int" where
  "requiredUsdcMicro s = BigInt (Math_round (fmul (requiredUsdc s) (Fin 1000000)))"

text \<open>
  The values below are computed by a render in which \<open>requiredUsdcMicro\<close> has the value
  \<open>micro\<close>.
\<close>

definition hasSufficientBalance :: "card_state \<Rightarrow> int \<Rightarrow> bool" where
  "hasSufficientBalance s micro =
     (case walletType s of
        External \<Rightarrow>
          (if hasExternalBalance s \<and> externalBalance s \<noteq> None
           then (case externalBalance s of Some b \<Rightarrow> micro \<le> b | None \<Rightarrow> False)
           else False)
      | Circle \<Rightarrow>
          (case circleBalance s of
             None \<Rightarrow> False
           | Some cb \<Rightarrow> if cb = [] then False else num_ge (parseFloat cb) (requiredUsdc s)))"

definition isConnected :: "card_state \<Rightarrow> bool" where
  "isConnected s =
     (case walletType s of
        External \<Rightarrow> isExternalConnected s
      | Circle \<Rightarrow> \<not> falsy_str (selectedCircleWalletId s))"

definition buttonDisabled :: "card_state \<Rightarrow> int \<Rightarrow> bool" where
  "buttonDisabled s micro =
     (\<not> isConnected s
      \<or> \<not> hasSufficientBalance s micro
      \<or> num_le (creditsToPurchase s) (Fin 0)
      \<or> falsy_str (destination s)
      \<or> (walletType s = External \<and> falsy_str (usdcAddress s))
      \<or> isSubmitting s
      \<or> (walletType s = External \<and> isExternalBalanceLoading s))"

text \<open>\<open>JSON.stringify\<close> of a Number: a Number that is not finite becomes \<open>null\<close>.\<close>

fun json_number :: "number \<Rightarrow> jsval" where
  "json_number (Fin q) = JNum (Fin q)"
| "json_number x = JNull"

record transactions_body = request_body +
  txHash :: string
  body_chainId :: jsval
  walletAddress :: "string option"
  destinationAddress_of :: "string option"

datatype ui_effect =
    ToastError string "string option"
  | ToastSuccess string string
  | WriteContractTransfer "string option" "string option" int
  | PostCirclePayment request_body
  | PostTransactions transactions_body

text \<open>
  The handlers up to their first \<open>await\<close>: the checks, \<open>setIsSubmitting(true)\<close> and the
  dispatch. \<open>settle\<close> is the \<open>finally\<close> block of both.
\<close>

definition handleExternalPurchase :: "card_state \<Rightarrow> int \<Rightarrow> card_state \<times> ui_effect list" where
  "handleExternalPurchase s micro =
     (if \<not> isExternalConnected s \<or> falsy_str (externalAddress s) then
        (s, [ToastError ''Not connected'' (Some ''Connect your wallet first.'')])
      else if falsy_str (destination s) then
        (s, [ToastError ''Configuration error'' (Some ''Destination address missing.'')])
      else if falsy_str (usdcAddress s) then
        (s, [ToastError ''Unsupported network'' (Some ''USDC not supported on current chain.'')])
      else
        (s\<lparr>isSubmitting := True\<rparr>,
         [WriteContractTransfer (usdcAddress s) (destination s) micro]))"

definition handleCirclePurchase :: "card_state \<Rightarrow> card_state \<times> ui_effect list" where
  "handleCirclePurchase s =
     (if falsy_str (selectedCircleWalletId s) then
        (s, [ToastError ''No Circle wallet selected'' None])
      else
        (s\<lparr>isSubmitting := True\<rparr>,
         [PostCirclePayment \<lparr>credits = json_number (creditsToPurchase s),
                             usdcAmount = json_number (requiredUsdc s)\<rparr>]))"

definition settle :: "card_state \<Rightarrow> card_state" where
  "settle s = s\<lparr>isSubmitting := False\<rparr>"

text \<open>The external handler once the wallet has returned the hash: the toast and the persist request.\<close>

definition handleExternalPurchase_submitted :: "card_state \<Rightarrow> string \<Rightarrow> ui_effect list" where
  "handleExternalPurchase_submitted s hash =
     [ToastSuccess ''Transaction submitted'' (''Hash: '' @ take 10 hash @ ''...''),
      PostTransactions \<lparr>credits = json_number (creditsToPurchase s),
                        usdcAmount = json_number (requiredUsdc s),
                        txHash = hash,
                        body_chainId = json_number (chainId s),
                        walletAddress = externalAddress s,
                        destinationAddress_of = destination s\<rparr>]"

text \<open>
  A click on the pay button. A disabled button delivers no click, and a render that threw
  shows no button.
\<close>

definition click :: "card_state \<Rightarrow> card_state \<times> ui_effect list" where
  "click s =
     (case requiredUsdcMicro s of
        Inl t \<Rightarrow> (s, [])
      | Inr micro \<Rightarrow>
          if buttonDisabled s micro then (s, [])
          else (case walletType s of
                  External \<Rightarrow> handleExternalPurchase s micro
                | Circle \<Rightarrow> handleCirclePurchase s))"

text \<open>
  The card over time: clicks, handlers reaching their \<open>finally\<close>, and any other change of
  the state (none of which writes \<open>isSubmitting\<close>). \<open>in_flight\<close> counts the handlers between
  their dispatch and their \<open>finally\<close>.
\<close>

fun is_dispatch :: "ui_effect \<Rightarrow> bool" where
  "is_dispatch (WriteContractTransfer a d v) = True"
| "is_dispatch (PostCirclePayment b) = True"
| "is_dispatch e = False"

datatype card_event = Click | Settle | Update "card_state \<Rightarrow> card_state"

record card_run =
  card :: card_state
  in_flight :: nat
  dispatched :: "ui_effect list"

fun step :: "card_run \<Rightarrow> card_event \<Rightarrow> card_run" where
  "step r Click =
     (case click (card r) of
        (s', es) \<Rightarrow>
          r\<lparr>card := s',
            in_flight := in_flight r + length (filter is_dispatch es),
            dispatched := dispatched r @ filter is_dispatch es\<rparr>)"
| "step r Settle =
     (if in_flight r = 0 then r
      else r\<lparr>card := settle (card r), in_flight := in_flight r - 1\<rparr>)"
| "step r (Update f) = r\<lparr>card := (f (card r))\<lparr>isSubmitting := isSubmitting (card r)\<rparr>\<rparr>"

definition mount :: "card_state \<Rightarrow> card_run" where
  "mount s = \<lparr>card = s\<lparr>isSubmitting := False\<rparr>, in_flight = 0, dispatched = []\<rparr>"

definition run :: "card_state \<Rightarrow> card_event list \<Rightarrow> card_run" where
  "run s evs = foldl step (mount s) evs"

fun is_settle :: "card_event \<Rightarrow> bool" where
  "is_settle Settle = True"
| "is_settle e = False"

text \<open>At most one handler is in flight, and while one is, the card is submitting.\<close>

definition serial :: "card_run \<Rightarrow> bool" where
  "serial r = (in_flight r \<le> 1 \<and> (in_flight r = 1 \<longrightarrow> isSubmitting (card r)))"

section \<open>Example runs\<close>

text \<open>
  A world in which the user is signed in and owns an SCA wallet, the admin wallet is
  configured, and the provider accepts the transfer as transaction \<open>tx-1\<close>. The request
  body, the balance listing and the answer of the insert are left open.
\<close>

definition example_user :: user where
  "example_user = \<lparr>user_id = ''user-1''\<rparr>"

definition example_wallet :: wallet_row where
  "example_wallet = \<lparr>circle_wallet_id = ''wallet-1'', blockchain = ''ARC-TESTNET'',
                      address = ''0xuser'', wallet_type = ''SCA''\<rparr>"

definition example_admin_wallet :: admin_wallet_row where
  "example_admin_wallet = \<lparr>admin_circle_wallet_id = ''wallet-0'', admin_address = ''0xadmin'',
                            admin_chain = ''ARC-TESTNET''\<rparr>"

definition usdc_entry :: "string \<Rightarrow> token_balance" where
  "usdc_entry a = \<lparr>token = Some \<lparr>token_id = ''usdc-token'', decimals = Some (Fin 6),
                                  symbol = Some ''USDC''\<rparr>,
                    amount = a\<rparr>"

definition example_world ::
  "request_body \<Rightarrow> token_balance list \<Rightarrow> pg_error + transaction_row \<Rightarrow> world" where
  "example_world b tbs ins =
     \<lparr>auth_getUser = Inr example_user,
      req_json = Inr b,
      select_sca_wallet = (\<lambda>uid. Inr example_wallet),
      select_latest_wallet = (\<lambda>uid. Inr example_wallet),
      select_admin_wallet = Inr example_admin_wallet,
      getWalletTokenBalance = (\<lambda>wid. Inr (Some tbs)),
      CIRCLE_USDC_TOKEN_ID = Some ''usdc-token'',
      createTransaction = (\<lambda>req. Inr (Some ''tx-1'')),
      insert_transaction = (\<lambda>r. ins)\<rparr>"

definition body_of :: "rat \<Rightarrow> rat \<Rightarrow> request_body" where
  "body_of c a = \<lparr>credits = JNum (Fin c), usdcAmount = JNum (Fin a)\<rparr>"

text \<open>A listing entry of another token.\<close>

definition other_entry :: token_balance where
  "other_entry = \<lparr>token = Some \<lparr>token_id = ''eurc-token'', decimals = Some (Fin 6),
                                     symbol = Some ''EURC''\<rparr>,
                   amount = ''5''\<rparr>"

text \<open>The request that the route sends to the provider in the example world, for an amount in atoms.\<close>

definition example_request :: "string \<Rightarrow> create_transaction_request" where
  "example_request atoms =
     \<lparr>walletId = ''wallet-1'', destinationAddress = ''0xadmin'', amounts = [atoms],
      feeLevel = ''MEDIUM'', tokenId = Some ''usdc-token''\<rparr>"

text \<open>
  Five such worlds: the wallet holds another token only; 100 credits are paid for with
  100 USDC; the same, with the insert failing; 100 credits are requested with a usdcAmount
  of 1; 1.15 credits are paid for with 1.15 USDC, the body being parsed from the JSON
  literal \<open>1.15\<close>.
\<close>

definition world_without_usdc :: world where
  "world_without_usdc =
     example_world (body_of 100 100) [other_entry] (Inr \<lparr>row_id = ''row-1''\<rparr>)"

definition world_paying_100 :: world where
  "world_paying_100 =
     example_world (body_of 100 100) [usdc_entry ''250.00''] (Inr \<lparr>row_id = ''row-1''\<rparr>)"

definition world_insert_fails :: world where
  "world_insert_fails =
     example_world (body_of 100 100) [usdc_entry ''250.00''] (Inl ''insert failed'')"

definition world_unrelated_amount :: world where
  "world_unrelated_amount =
     example_world (body_of 100 1) [usdc_entry ''250.00''] (Inr \<lparr>row_id = ''row-1''\<rparr>)"

definition world_paying_1_15 :: world where
  "world_paying_1_15 =
     example_world \<lparr>credits = JNum (round_double (115 / 100)),
                     usdcAmount = JNum (round_double (115 / 100))\<rparr>
       [usdc_entry ''250.00''] (Inr \<lparr>row_id = ''row-1''\<rparr>)"

text \<open>The record that the route writes in the second and third of them.\<close>

definition example_record :: transaction_record where
  "example_record = new_transaction_record example_user (body_of 100 100) example_wallet ''tx-1''"

text \<open>A card on the custodial path: 50 credits against a balance of \<open>100.00\<close>.\<close>

definition circle_card :: card_state where
  "circle_card =
     \<lparr>externalAddress = None, isExternalConnected = False, chainId = Fin 1,
      usdcAddress = None, externalBalance = None, hasExternalBalance = False,
      isExternalBalanceLoading = False,
      walletType = Circle, creditsToPurchase = Fin 50, isSubmitting = False,
      selectedCircleWalletId = Some ''wallet-1'', circleBalance = Some ''100.00'',
      destination = Some ''0xadmin''\<rparr>"

text \<open>A card on the external path: 10 credits against an on-chain balance of 9999999 atoms.\<close>

definition external_card :: card_state where
  "external_card =
     \<lparr>externalAddress = Some ''0xuser'', isExternalConnected = True, chainId = Fin 1,
      usdcAddress = Some ''0xusdc'', externalBalance = Some 9999999, hasExternalBalance = True,
      isExternalBalanceLoading = False,
      walletType = External, creditsToPurchase = Fin 10, isSubmitting = False,
      selectedCircleWalletId = None, circleBalance = None,
      destination = Some ''0xadmin''\<rparr>"

text \<open>The same card with a balance of exactly 10000000 atoms.\<close>

definition funded_external_card :: card_state where
  "funded_external_card = external_card\<lparr>externalBalance := Some 10000000\<rparr>"

text \<open>The request that persists its external payment with hash \<open>0xhash\<close>.\<close>

definition example_persist_body :: transactions_body where
  "example_persist_body =
     \<lparr>credits = JNum (Fin 10), usdcAmount = JNum (Fin 10), txHash = ''0xhash'',
      body_chainId = JNum (Fin 1), walletAddress = Some ''0xuser'',
      destinationAddress_of = Some ''0xadmin''\<rparr>"

section \<open>Facts about the payment route\<close>

lemma find_token_None_iff:
  "find_token listing i = None \<longleftrightarrow> i \<notin> listed_ids listing"
  by (cases listing) (auto simp: find_token_def listed_ids_def find_None_iff)

lemma created_transactions_append:
  "created_transactions (es @ fs) = created_transactions es @ created_transactions fs"
  by (induction es rule: created_transactions.induct) simp_all

lemma inserted_records_append:
  "inserted_records (es @ fs) = inserted_records es @ inserted_records fs"
  by (induction es rule: inserted_records.induct) simp_all

lemma balance_requests_append:
  "balance_requests (es @ fs) = balance_requests es @ balance_requests fs"
  by (induction es rule: balance_requests.induct) simp_all

lemmas calls_append = created_transactions_append inserted_records_append balance_requests_append

lemma select_user_wallet_quiet: "quiet (snd (select_user_wallet w u))"
  by (simp add: select_user_wallet_def quiet_def split: sum.splits)

lemma POST_wallets_shape:
  "(quiet (snd (POST_wallets w u b)) \<and> (\<exists>r. fst (POST_wallets w u b) = Inr r \<and> status_code r \<noteq> 200))
   \<or> (\<exists>uw aw es. quiet es \<and>
         POST_wallets w u b = after_calls es (POST_transfer w u b uw aw))"
proof (cases "select_user_wallet w u")
  case (Pair found es)
  have q: "quiet es" using select_user_wallet_quiet[of w u] Pair by simp
  show ?thesis
  proof (cases found)
    case None
    with Pair q show ?thesis by (simp add: POST_wallets_def)
  next
    case (Some uw)
    show ?thesis
    proof (cases "select_admin_wallet w")
      case (Inl e)
      with Pair Some q show ?thesis by (simp add: POST_wallets_def quiet_def calls_append)
    next
      case (Inr aw)
      have "quiet (es @ [SelectAdminWallet])" using q by (simp add: quiet_def calls_append)
      moreover have "POST_wallets w u b = after_calls (es @ [SelectAdminWallet]) (POST_transfer w u b uw aw)"
        using Pair Some Inr by (simp add: POST_wallets_def)
      ultimately show ?thesis by blast
    qed
  qed
qed

lemma after_calls_after_calls:
  "after_calls es (after_calls fs p) = after_calls (es @ fs) p"
  by (simp add: after_calls_def)

lemma POST_try_shape:
  "(quiet (snd (POST_try w)) \<and> (\<forall>r. fst (POST_try w) = Inr r \<longrightarrow> status_code r \<noteq> 200))
   \<or> (\<exists>u b uw aw es. quiet es \<and> req_json w = Inr b \<and>
         POST_try w = after_calls es (POST_transfer w u b uw aw))"
proof (cases "auth_getUser w")
  case (Inl e)
  then show ?thesis by (simp add: POST_try_def quiet_def)
next
  case u: (Inr u)
  show ?thesis
  proof (cases "req_json w")
    case (Inl t)
    with u show ?thesis by (simp add: POST_try_def quiet_def)
  next
    case b: (Inr b)
    show ?thesis
    proof (cases "falsy (credits b) \<or> falsy (usdcAmount b)")
      case True
      with u b show ?thesis by (simp add: POST_try_def quiet_def)
    next
      case False
      then have eq: "POST_try w = after_calls [GetUser, ReqJson] (POST_wallets w u b)"
        using u b by (simp add: POST_try_def)
      from POST_wallets_shape[of w u b] show ?thesis
      proof
        assume "quiet (snd (POST_wallets w u b)) \<and> (\<exists>r. fst (POST_wallets w u b) = Inr r \<and> status_code r \<noteq> 200)"
        then show ?thesis
          unfolding eq by (auto simp: after_calls_def quiet_def calls_append)
      next
        assume "\<exists>uw aw es. quiet es \<and> POST_wallets w u b = after_calls es (POST_transfer w u b uw aw)"
        then obtain uw aw es where q: "quiet es"
          and p: "POST_wallets w u b = after_calls es (POST_transfer w u b uw aw)" by blast
        have "quiet ([GetUser, ReqJson] @ es)" using q by (simp add: quiet_def)
        moreover have "POST_try w = after_calls ([GetUser, ReqJson] @ es) (POST_transfer w u b uw aw)"
          unfolding eq p by (simp only: after_calls_after_calls)
        ultimately show ?thesis using b by blast
      qed
    qed
  qed
qed


lemma POST_obs:
  "balance_requests (snd (POST w)) = balance_requests (snd (POST_try w))"
  "created_transactions (snd (POST w)) = created_transactions (snd (POST_try w))"
  "inserted_records (snd (POST w)) = inserted_records (snd (POST_try w))"
  by (simp_all add: POST_def calls_append split: prod.splits sum.splits)

lemma POST_of_response:
  "fst (POST_try w) = Inr r \<Longrightarrow> POST w = (r, snd (POST_try w))"
  by (cases "POST_try w") (simp add: POST_def)

lemma balance_requests_mem:
  "GetWalletTokenBalance i \<in> set es \<longleftrightarrow> i \<in> set (balance_requests es)"
  by (induction es rule: balance_requests.induct) auto

lemma inserted_records_mem:
  "InsertTransaction r \<in> set es \<longleftrightarrow> r \<in> set (inserted_records es)"
  by (induction es rule: inserted_records.induct) auto

lemma POST_record_obs:
  "balance_requests (snd (POST_record w u b uw i)) = []"
  "created_transactions (snd (POST_record w u b uw i)) = []"
  "inserted_records (snd (POST_record w u b uw i)) = [new_transaction_record u b uw i]"
  by (simp_all add: POST_record_def Let_def split: sum.splits)

lemma POST_transfer_balance_requests:
  "balance_requests (snd (POST_transfer w u b uw aw)) = [circle_wallet_id uw]"
  by (simp add: POST_transfer_def Let_def after_calls_def calls_append POST_record_obs
      split: sum.splits option.splits)

lemma POST_transfer_absent:
  assumes "getWalletTokenBalance w (circle_wallet_id uw) = Inr listing"
      and "find_token listing (CIRCLE_USDC_TOKEN_ID w) = None"
  shows "fst (POST_transfer w u b uw aw)
           = Inr (Response 400 (Inl (Message ''USDC balance not found in wallet.'')))"
    and "created_transactions (snd (POST_transfer w u b uw aw)) = []"
    and "inserted_records (snd (POST_transfer w u b uw aw)) = []"
  using assms by (simp_all add: POST_transfer_def)

lemma POST_transfer_created:
  assumes "created_transactions (snd (POST_transfer w u b uw aw)) = [req]"
      and "createTransaction w req = Inr (Some i)" and "i \<noteq> []"
  shows "POST_transfer w u b uw aw
           = after_calls [GetWalletTokenBalance (circle_wallet_id uw), CreateTransaction req]
               (POST_record w u b uw i)"
  using assms
  by (auto simp: POST_transfer_def Let_def after_calls_def calls_append POST_record_obs
      split: sum.splits option.splits if_splits)

lemma POST_transfer_inserted:
  "r \<in> set (inserted_records (snd (POST_transfer w u b uw aw)))
     \<Longrightarrow> amount_usdc r = usdcAmount b \<and> credit_amount r = credits b"
  by (auto simp: POST_transfer_def Let_def after_calls_def calls_append POST_record_obs
        new_transaction_record_def
      split: sum.splits option.splits if_splits)

lemma POST_reaches_record:
  assumes "created_transactions (snd (POST w)) = [req]"
      and "createTransaction w req = Inr (Some i)" and "i \<noteq> []"
  shows "\<exists>u b uw es. inserted_records es = [] \<and>
           POST_try w = after_calls es (POST_record w u b uw i)"
proof -
  have cr: "created_transactions (snd (POST_try w)) = [req]"
    using assms(1) by (simp add: POST_obs)
  then have "\<not> quiet (snd (POST_try w))" by (auto simp: quiet_def)
  with POST_try_shape[of w] obtain u b uw aw es where q: "quiet es"
    and eq: "POST_try w = after_calls es (POST_transfer w u b uw aw)" by blast
  have "created_transactions (snd (POST_transfer w u b uw aw)) = [req]"
    using cr q by (simp add: eq after_calls_def calls_append quiet_def)
  from POST_transfer_created[OF this assms(2,3)]
  have 1: "POST_try w = after_calls (es @ [GetWalletTokenBalance (circle_wallet_id uw), CreateTransaction req])
                       (POST_record w u b uw i)"
    by (simp add: eq after_calls_after_calls)
  have 2: "inserted_records (es @ [GetWalletTokenBalance (circle_wallet_id uw), CreateTransaction req]) = []"
    using q by (simp add: quiet_def calls_append)
  from 1 2 show ?thesis by blast
qed

lemma POST_inserted_echo:
  assumes "r \<in> set (inserted_records (snd (POST w)))"
  shows "\<exists>b. req_json w = Inr b \<and> amount_usdc r = usdcAmount b \<and> credit_amount r = credits b"
proof -
  have mem: "r \<in> set (inserted_records (snd (POST_try w)))"
    using assms by (simp add: POST_obs)
  then have "\<not> quiet (snd (POST_try w))" by (auto simp: quiet_def)
  with POST_try_shape[of w] obtain u b uw aw es where q: "quiet es"
    and b: "req_json w = Inr b"
    and eq: "POST_try w = after_calls es (POST_transfer w u b uw aw)" by blast
  have "r \<in> set (inserted_records (snd (POST_transfer w u b uw aw)))"
    using mem q by (simp add: eq after_calls_def calls_append quiet_def)
  from POST_transfer_inserted[OF this] b show ?thesis by blast
qed

lemma POST_token_absent:
  assumes "GetWalletTokenBalance wid \<in> set (snd (POST w))"
      and "getWalletTokenBalance w wid = Inr listing"
      and "CIRCLE_USDC_TOKEN_ID w \<notin> listed_ids listing"
  shows "fst (POST w) = Response 400 (Inl (Message ''USDC balance not found in wallet.''))
         \<and> created_transactions (snd (POST w)) = []
         \<and> inserted_records (snd (POST w)) = []"
proof -
  have mem: "wid \<in> set (balance_requests (snd (POST_try w)))"
    using assms(1) by (simp add: balance_requests_mem POST_obs)
  then have "\<not> quiet (snd (POST_try w))" by (auto simp: quiet_def)
  with POST_try_shape[of w] obtain u b uw aw es where q: "quiet es"
    and eq: "POST_try w = after_calls es (POST_transfer w u b uw aw)" by blast
  have "wid = circle_wallet_id uw"
    using mem q by (simp add: eq after_calls_def calls_append quiet_def POST_transfer_balance_requests)
  then have listing: "getWalletTokenBalance w (circle_wallet_id uw) = Inr listing"
    using assms(2) by simp
  have none: "find_token listing (CIRCLE_USDC_TOKEN_ID w) = None"
    using assms(3) by (simp add: find_token_None_iff)
  note absent = POST_transfer_absent[OF listing none, of u b aw]
  have "fst (POST_try w) = Inr (Response 400 (Inl (Message ''USDC balance not found in wallet.'')))"
    by (simp add: eq after_calls_def absent(1))
  then have "fst (POST w) = Response 400 (Inl (Message ''USDC balance not found in wallet.''))"
    by (simp add: POST_of_response)
  moreover have "created_transactions (snd (POST w)) = []"
    using q by (simp add: POST_obs eq after_calls_def calls_append quiet_def absent(2))
  moreover have "inserted_records (snd (POST w)) = []"
    using q by (simp add: POST_obs eq after_calls_def calls_append quiet_def absent(3))
  ultimately show ?thesis by blast
qed

section \<open>The token id is missing from the balance listing\<close>

text \<open>
  C2. Whenever the payment route has fetched the balance listing of the user's wallet and
  no entry of the listing carries the configured USDC token id, the route answers with the
  error \<open>USDC balance not found in wallet.\<close> (status 400) and has called neither the
  provider's transaction creation nor the insert into the transactions table. The answer
  does not depend on the requested amount, which is not converted on this path.
\<close>

theorem payment_token_absent_short_circuits:
  assumes "GetWalletTokenBalance wid \<in> set (snd (POST w))"
      and "getWalletTokenBalance w wid = Inr listing"
      and "CIRCLE_USDC_TOKEN_ID w \<notin> listed_ids listing"
  shows "fst (POST w) = Response 400 (Inl (Message ''USDC balance not found in wallet.''))
         \<and> created_transactions (snd (POST w)) = []
         \<and> inserted_records (snd (POST w)) = []"
  using assms by (rule POST_token_absent)

theorem payment_token_absent_witness:
  "GetWalletTokenBalance ''wallet-1'' \<in> set (snd (POST world_without_usdc))
   \<and> getWalletTokenBalance world_without_usdc ''wallet-1'' = Inr (Some [other_entry])
   \<and> CIRCLE_USDC_TOKEN_ID world_without_usdc \<notin> listed_ids (Some [other_entry])
   \<and> fst (POST world_without_usdc)
        = Response 400 (Inl (Message ''USDC balance not found in wallet.''))
   \<and> created_transactions (snd (POST world_without_usdc)) = []
   \<and> inserted_records (snd (POST world_without_usdc)) = []"
proof -
  have h1: "GetWalletTokenBalance ''wallet-1'' \<in> set (snd (POST world_without_usdc))"
    by code_simp
  have h2: "getWalletTokenBalance world_without_usdc ''wallet-1'' = Inr (Some [other_entry])"
    by (simp add: world_without_usdc_def example_world_def)
  have h3: "CIRCLE_USDC_TOKEN_ID world_without_usdc \<notin> listed_ids (Some [other_entry])"
    by (simp add: world_without_usdc_def example_world_def listed_ids_def token_id_of_def
          other_entry_def)
  from payment_token_absent_short_circuits[OF h1 h2 h3] h1 h2 h3 show ?thesis
    by blast
qed

section \<open>The record of a submitted custodial payment\<close>

text \<open>
  C3. Whenever the route has sent a transfer request to the provider and the provider has
  answered it with a transaction id (which is not empty), the route inserts exactly one
  record into the transactions table, with status \<open>pending\<close>, the placeholder \<open>pending\<close>
  as transaction hash, and the idempotency key \<open>client:\<close> followed by the provider's
  transaction id.
\<close>

theorem custodial_record_is_pending:
  assumes "created_transactions (snd (POST w)) = [req]"
      and "createTransaction w req = Inr (Some txid)" and "txid \<noteq> []"
  shows "\<exists>r. inserted_records (snd (POST w)) = [r]
             \<and> status r = ''pending'' \<and> tx_hash r = ''pending''
             \<and> idempotency_key r = ''client:'' @ txid"
proof -
  from POST_reaches_record[OF assms] obtain u b uw es where es: "inserted_records es = []"
    and eq: "POST_try w = after_calls es (POST_record w u b uw txid)" by blast
  have "inserted_records (snd (POST w)) = [new_transaction_record u b uw txid]"
    using es by (simp add: POST_obs eq after_calls_def calls_append POST_record_obs)
  then show ?thesis by (simp add: new_transaction_record_def)
qed

theorem custodial_record_is_pending_witness:
  "created_transactions (snd (POST world_paying_100)) = [example_request ''100000000'']
   \<and> createTransaction world_paying_100 (example_request ''100000000'') = Inr (Some ''tx-1'')
   \<and> ''tx-1'' \<noteq> []
   \<and> (\<exists>r. inserted_records (snd (POST world_paying_100)) = [r]
          \<and> status r = ''pending'' \<and> tx_hash r = ''pending''
          \<and> idempotency_key r = ''client:'' @ ''tx-1'')"
proof -
  have h1: "created_transactions (snd (POST world_paying_100)) = [example_request ''100000000'']"
    by code_simp
  have h2: "createTransaction world_paying_100 (example_request ''100000000'')
              = Inr (Some ''tx-1'')"
    by (simp add: world_paying_100_def example_world_def)
  have h3: "''tx-1'' \<noteq> []"
    by simp
  from custodial_record_is_pending[OF h1 h2 h3] h1 h2 h3 show ?thesis
    by blast
qed

section \<open>A failed insert after a successful transfer\<close>

text \<open>
  C8. Whenever the provider has accepted the transfer and answered with a transaction id,
  and the insert of the record then fails, the route still answers with the success
  response (status 200), in which the provider's transaction id stands for the transaction
  id; the failure is written to the error console only.
\<close>

theorem insert_failure_still_success:
  assumes "created_transactions (snd (POST w)) = [req]"
      and "createTransaction w req = Inr (Some txid)" and "txid \<noteq> []"
      and "InsertTransaction r \<in> set (snd (POST w))"
      and "insert_transaction w r = Inl insertError"
  shows "fst (POST w) = Response 200 (Inr \<lparr>success = True, transactionId = txid,
                                           circleTransactionId = txid\<rparr>)
         \<and> ConsoleError [Text ''Failed to record transaction:'', Text insertError]
             \<in> set (snd (POST w))"
proof -
  from POST_reaches_record[OF assms(1-3)] obtain u b uw es where es: "inserted_records es = []"
    and eq: "POST_try w = after_calls es (POST_record w u b uw txid)" by blast
  have "inserted_records (snd (POST w)) = [new_transaction_record u b uw txid]"
    using es by (simp add: POST_obs eq after_calls_def calls_append POST_record_obs)
  with assms(4) have r: "r = new_transaction_record u b uw txid"
    by (simp add: inserted_records_mem)
  have rec: "POST_record w u b uw txid =
          (Inr (Response 200 (Inr \<lparr>success = True, transactionId = txid,
                                   circleTransactionId = txid\<rparr>)),
           [InsertTransaction r, ConsoleError [Text ''Failed to record transaction:'', Text insertError]])"
    using assms(5) unfolding r by (simp add: POST_record_def Let_def)
  have "POST w = (Response 200 (Inr \<lparr>success = True, transactionId = txid,
                                   circleTransactionId = txid\<rparr>), snd (POST_try w))"
    by (rule POST_of_response) (simp add: eq after_calls_def rec)
  then show ?thesis by (simp add: eq after_calls_def rec)
qed

theorem insert_failure_still_success_witness:
  "created_transactions (snd (POST world_insert_fails)) = [example_request ''100000000'']
   \<and> createTransaction world_insert_fails (example_request ''100000000'') = Inr (Some ''tx-1'')
   \<and> InsertTransaction example_record \<in> set (snd (POST world_insert_fails))
   \<and> insert_transaction world_insert_fails example_record = Inl ''insert failed''
   \<and> fst (POST world_insert_fails)
        = Response 200 (Inr \<lparr>success = True, transactionId = ''tx-1'',
                              circleTransactionId = ''tx-1''\<rparr>)
   \<and> ConsoleError [Text ''Failed to record transaction:'', Text ''insert failed'']
        \<in> set (snd (POST world_insert_fails))"
proof -
  have h1: "created_transactions (snd (POST world_insert_fails)) = [example_request ''100000000'']"
    by code_simp
  have h2: "createTransaction world_insert_fails (example_request ''100000000'')
              = Inr (Some ''tx-1'')"
    by (simp add: world_insert_fails_def example_world_def)
  have h3: "''tx-1'' \<noteq> []"
    by simp
  have h4: "InsertTransaction example_record \<in> set (snd (POST world_insert_fails))"
    by code_simp
  have h5: "insert_transaction world_insert_fails example_record = Inl ''insert failed''"
    by (simp add: world_insert_fails_def example_world_def)
  from insert_failure_still_success[OF h1 h2 h3 h4 h5] h1 h2 h4 h5 show ?thesis
    by blast
qed

section \<open>The amount in atoms\<close>

text \<open>
  The two amounts that the specification gives as examples, and the amount of 100 credits,
  are converted exactly.
\<close>

lemma amount_conversion_spec_examples:
  "amountInSmallestUnit (JNum (round_double 10)) (Fin 6) = Inr ''10000000''"
  "amountInSmallestUnit (JNum (round_double (2550 / 100))) (Fin 6) = Inr ''25500000''"
  "amountInSmallestUnit (JNum (round_double 100)) (Fin 6) = Inr ''100000000''"
  by code_simp+

text \<open>
  For the amount 1.15 the binary64 product \<open>1.15 * 100\<close> lies just below 115, so that
  \<open>Math.floor\<close> yields 114 cents where \<open>Math.round\<close> yields 115.
\<close>

lemma amount_conversion_product_drifts:
  "fmul (round_double (115 / 100)) (Fin 100) = Fin (8092405580431359 / 70368744177664)"
  "(8092405580431359 / 70368744177664 :: rat) < 115"
  "Math_floor (fmul (round_double (115 / 100)) (Fin 100)) = Fin 114"
  "Math_round (fmul (round_double (115 / 100)) (Fin 100)) = Fin 115"
  by code_simp+

text \<open>
  C1. The conversion is to return \<open>round(a * 10^d)\<close> for every amount with at most two
  fractional digits. For the amount 1.15 and a token of 6 decimals the route computes
  1140000 atoms and sends that amount to the provider, while \<open>round(1.15 * 10^6)\<close> is
  1150000.
\<close>

theorem amount_conversion_floor_drift:
  "amountInSmallestUnit (JNum (round_double (115 / 100))) (Fin 6) = Inr ''1140000''
   \<and> map amounts (created_transactions (snd (POST world_paying_1_15))) = [[''1140000'']]
   \<and> bigint_toString (spec_convert (115 / 100) 6) = ''1150000''"
  by code_simp

section \<open>The balance route\<close>

lemma find_token_empty: "find_token (Some []) i = None"
  by (simp add: find_token_def)

text \<open>
  An entry with amount \<open>0\<close> gives the same \<open>balance\<close> field as a missing entry; only
  \<open>rawBalance\<close> then carries the entry.
\<close>

lemma balance_route_zero_amount:
  "GET_balance (example_world b [usdc_entry ''0''] ins) (Some ''wallet-1'')
     = (Response 200 (Inr \<lparr>balance = ''0'', rawBalance = Some (usdc_entry ''0'')\<rparr>),
        [GetUser, GetWalletTokenBalance ''wallet-1''])"
  by (simp add: GET_balance_def example_world_def find_token_def token_id_of_def usdc_entry_def)

text \<open>
  C10. For a signed-in request with a wallet id, when the provider returns a listing that
  has no entry with the configured USDC token id, the balance route answers with status 200,
  balance \<open>0\<close> and rawBalance \<open>null\<close>. The answer is the one given for a wallet whose
  listing is empty, so a misconfigured token id cannot be told from a wallet that holds
  nothing. The payment route, having fetched such a listing, answers with status 400.
\<close>

theorem balance_route_missing_token_reads_zero:
  assumes "wid \<noteq> []" and "auth_getUser w = Inr u"
      and "getWalletTokenBalance w wid = Inr listing"
      and "CIRCLE_USDC_TOKEN_ID w \<notin> listed_ids listing"
  shows "fst (GET_balance w (Some wid)) = Response 200 (Inr \<lparr>balance = ''0'', rawBalance = None\<rparr>)
         \<and> GET_balance w (Some wid)
             = GET_balance (w\<lparr>getWalletTokenBalance := (\<lambda>i. Inr (Some []))\<rparr>) (Some wid)
         \<and> (GetWalletTokenBalance wid \<in> set (snd (POST w))
              \<longrightarrow> status_code (fst (POST w)) = 400)"
proof -
  have "fst (GET_balance w (Some wid)) = Response 200 (Inr \<lparr>balance = ''0'', rawBalance = None\<rparr>)
        \<and> GET_balance w (Some wid)
             = GET_balance (w\<lparr>getWalletTokenBalance := (\<lambda>i. Inr (Some []))\<rparr>) (Some wid)"
    using assms
    by (simp add: GET_balance_def find_token_None_iff[symmetric] find_token_empty)
  moreover have "status_code (fst (POST w)) = 400"
    if "GetWalletTokenBalance wid \<in> set (snd (POST w))"
    using POST_token_absent[OF that assms(3,4)] by simp
  ultimately show ?thesis by blast
qed

theorem balance_route_missing_token_witness:
  "''wallet-1'' \<noteq> []
   \<and> auth_getUser world_without_usdc = Inr example_user
   \<and> getWalletTokenBalance world_without_usdc ''wallet-1'' = Inr (Some [other_entry])
   \<and> CIRCLE_USDC_TOKEN_ID world_without_usdc \<notin> listed_ids (Some [other_entry])
   \<and> GetWalletTokenBalance ''wallet-1'' \<in> set (snd (POST world_without_usdc))
   \<and> fst (GET_balance world_without_usdc (Some ''wallet-1''))
       = Response 200 (Inr \<lparr>balance = ''0'', rawBalance = None\<rparr>)
   \<and> status_code (fst (POST world_without_usdc)) = 400"
proof -
  have h1: "''wallet-1'' \<noteq> []"
    by simp
  have h2: "auth_getUser world_without_usdc = Inr example_user"
    by (simp add: world_without_usdc_def example_world_def)
  have h3: "getWalletTokenBalance world_without_usdc ''wallet-1'' = Inr (Some [other_entry])"
    by (simp add: world_without_usdc_def example_world_def)
  have h4: "CIRCLE_USDC_TOKEN_ID world_without_usdc \<notin> listed_ids (Some [other_entry])"
    by (simp add: world_without_usdc_def example_world_def listed_ids_def token_id_of_def
          other_entry_def)
  have h5: "GetWalletTokenBalance ''wallet-1'' \<in> set (snd (POST world_without_usdc))"
    by code_simp
  from balance_route_missing_token_reads_zero[OF h1 h2 h3 h4] h1 h2 h3 h4 h5 show ?thesis
    by blast
qed

section \<open>Facts about the purchase card\<close>

lemma submitting_disabled: "isSubmitting s \<Longrightarrow> buttonDisabled s micro"
  by (simp add: buttonDisabled_def)

lemma click_when_submitting: "isSubmitting s \<Longrightarrow> click s = (s, [])"
  by (simp add: click_def buttonDisabled_def split: sum.splits)

lemma click_dispatches:
  "click s = (s', es) \<Longrightarrow>
     (filter is_dispatch es = [] \<and> s' = s)
     \<or> (length (filter is_dispatch es) = 1 \<and> \<not> isSubmitting s \<and> isSubmitting s')"
  by (auto simp: click_def buttonDisabled_def handleExternalPurchase_def handleCirclePurchase_def
      split: sum.splits if_splits WalletType.splits)

lemma step_serial: "serial r \<Longrightarrow> serial (step r e)"
proof (cases e)
  case Click
  assume inv: "serial r"
  obtain s' es where c: "click (card r) = (s', es)" by (cases "click (card r)")
  from click_dispatches[OF c] inv show ?thesis
    unfolding Click by (auto simp: c serial_def)
next
  case Settle
  assume "serial r"
  then show ?thesis unfolding Settle by (auto simp: serial_def settle_def)
next
  case (Update f)
  assume "serial r"
  then show ?thesis unfolding Update by (auto simp: serial_def)
qed

lemma step_dispatched:
  "int (length (dispatched (step r e))) - int (in_flight (step r e))
     \<le> int (length (dispatched r)) - int (in_flight r) + (if is_settle e then 1 else 0)"
proof (cases e)
  case Click
  obtain s' es where c: "click (card r) = (s', es)" by (cases "click (card r)")
  show ?thesis unfolding Click by (simp add: c)
next
  case Settle
  show ?thesis unfolding Settle by simp
next
  case (Update f)
  show ?thesis unfolding Update by simp
qed

lemma foldl_step_serial: "serial r \<Longrightarrow> serial (foldl step r evs)"
  by (induction evs arbitrary: r) (simp_all add: step_serial)

lemma foldl_step_dispatched:
  "int (length (dispatched (foldl step r evs))) - int (in_flight (foldl step r evs))
     \<le> int (length (dispatched r)) - int (in_flight r) + int (length (filter is_settle evs))"
proof (induction evs arbitrary: r)
  case Nil
  show ?case by simp
next
  case (Cons e evs)
  from Cons[of "step r e"] step_dispatched[of r e] show ?case
    by (simp split: if_splits)
qed

lemma mount_serial: "serial (mount s)"
  by (simp add: serial_def mount_def)

lemma click_circle_body:
  assumes "PostCirclePayment b \<in> set (snd (click s))"
  shows "credits b = json_number (creditsToPurchase s)
         \<and> usdcAmount b = json_number (fmul (creditsToPurchase s) (Fin 1))"
  using assms
  by (auto simp: click_def handleExternalPurchase_def handleCirclePurchase_def requiredUsdc_def
        USDC_PER_CREDIT_def
      split: sum.splits if_splits WalletType.splits)

lemma click_external_amount:
  assumes "WriteContractTransfer a d v \<in> set (snd (click s))"
  shows "requiredUsdcMicro s = Inr v"
  using assms
  by (auto simp: click_def handleExternalPurchase_def handleCirclePurchase_def
      split: sum.splits if_splits WalletType.splits)

text \<open>Two clicks in a row on the example card send one payment request.\<close>

lemma double_click_dispatches_once:
  "dispatched (run circle_card [Click, Click]) = [PostCirclePayment (body_of 50 50)]"
  by code_simp

section \<open>The submitting flag\<close>

text \<open>
  C4. In every state of the card in which \<open>isSubmitting\<close> is true the pay button is
  disabled and a click changes nothing and dispatches nothing. Over any sequence of clicks,
  completions and other state changes, starting from a freshly mounted card, at most one
  handler is in flight at a time, and the number of dispatches exceeds the number of
  completions by at most one: clicks that follow a dispatch without a completion in
  between dispatch nothing.
\<close>

theorem submitting_serialises_dispatch:
  "(isSubmitting s \<longrightarrow> buttonDisabled s micro \<and> click s = (s, []))
   \<and> in_flight (run s0 evs) \<le> 1
   \<and> length (dispatched (run s0 evs)) \<le> Suc (length (filter is_settle evs))"
proof -
  have inv: "serial (run s0 evs)"
    unfolding run_def by (rule foldl_step_serial) (rule mount_serial)
  then have a: "in_flight (run s0 evs) \<le> 1" by (simp add: serial_def)
  from foldl_step_dispatched[of "mount s0" evs]
  have "int (length (dispatched (run s0 evs))) - int (in_flight (run s0 evs))
          \<le> int (length (filter is_settle evs))"
    by (simp add: run_def mount_def)
  with a have "length (dispatched (run s0 evs)) \<le> Suc (length (filter is_settle evs))"
    by linarith
  with a show ?thesis
    by (simp add: submitting_disabled click_when_submitting)
qed

theorem submitting_serialises_dispatch_witness:
  "isSubmitting (circle_card\<lparr>isSubmitting := True\<rparr>)
   \<and> buttonDisabled (circle_card\<lparr>isSubmitting := True\<rparr>) 50000000
   \<and> click (circle_card\<lparr>isSubmitting := True\<rparr>) = (circle_card\<lparr>isSubmitting := True\<rparr>, [])
   \<and> in_flight (run circle_card [Click, Click]) \<le> 1
   \<and> length (dispatched (run circle_card [Click, Click])) \<le> Suc (length (filter is_settle [Click, Click]))"
proof -
  have h: "isSubmitting (circle_card\<lparr>isSubmitting := True\<rparr>)" by simp
  from submitting_serialises_dispatch[of "circle_card\<lparr>isSubmitting := True\<rparr>" 50000000 circle_card "[Click, Click]"] h
  show ?thesis by blast
qed

section \<open>The destination address\<close>

text \<open>
  C9. In every state of the card in which the destination address is undefined the pay
  button is disabled and a click does nothing, whatever the selected wallet and whatever
  the balance.
\<close>

theorem missing_destination_disables_pay:
  "destination s = None \<Longrightarrow> buttonDisabled s micro \<and> click s = (s, [])"
  by (simp add: click_def buttonDisabled_def falsy_str_def split: sum.splits)

theorem missing_destination_disables_pay_witness:
  "destination (circle_card\<lparr>destination := None\<rparr>) = None
   \<and> hasSufficientBalance (circle_card\<lparr>destination := None\<rparr>) 50000000
   \<and> buttonDisabled (circle_card\<lparr>destination := None\<rparr>) 50000000
   \<and> click (circle_card\<lparr>destination := None\<rparr>) = (circle_card\<lparr>destination := None\<rparr>, [])"
proof -
  have h: "destination (circle_card\<lparr>destination := None\<rparr>) = None" by simp
  have s: "hasSufficientBalance (circle_card\<lparr>destination := None\<rparr>) 50000000" by code_simp
  from missing_destination_disables_pay[OF h, of 50000000] h s show ?thesis by blast
qed

section \<open>Sufficiency of the balance\<close>

text \<open>
  C5. On the external path, with the on-chain balance \<open>b\<close> read, the balance is sufficient
  for the required amount \<open>r\<close> in atoms exactly when \<open>b \<ge> r\<close> as integers; a balance of
  9999999 against a requirement of 10000000 is insufficient.
\<close>

theorem external_sufficiency_is_integer_comparison:
  "walletType s = External \<Longrightarrow> hasExternalBalance s \<Longrightarrow> externalBalance s = Some b
     \<Longrightarrow> hasSufficientBalance s r = (b \<ge> r)"
  by (simp add: hasSufficientBalance_def)

theorem external_sufficiency_witness:
  "walletType external_card = External \<and> hasExternalBalance external_card
   \<and> externalBalance external_card = Some 9999999
   \<and> requiredUsdcMicro external_card = Inr 10000000
   \<and> hasSufficientBalance external_card 10000000 = (9999999 \<ge> (10000000 :: int))
   \<and> \<not> hasSufficientBalance external_card 10000000"
proof -
  have h1: "walletType external_card = External" by (simp add: external_card_def)
  have h2: "hasExternalBalance external_card" by (simp add: external_card_def)
  have h3: "externalBalance external_card = Some 9999999" by (simp add: external_card_def)
  have m: "requiredUsdcMicro external_card = Inr 10000000" by code_simp
  from external_sufficiency_is_integer_comparison[OF h1 h2 h3, of 10000000] h1 h2 h3 m
  show ?thesis by simp
qed

text \<open>
  C6. On the custodial path, with the balance string \<open>cb\<close> loaded, the balance is
  sufficient exactly when \<open>parseFloat(cb) >= requiredUsdc\<close> as Numbers; the amount in
  atoms plays no part. A balance of \<open>100.00\<close> against a requirement of 50 is sufficient.
\<close>

theorem custodial_sufficiency_compares_parsed_decimals:
  "walletType s = Circle \<Longrightarrow> circleBalance s = Some cb
     \<Longrightarrow> hasSufficientBalance s micro = num_ge (parseFloat cb) (requiredUsdc s)"
proof -
  have "parseFloat [] = NaN" by code_simp
  moreover assume "walletType s = Circle" "circleBalance s = Some cb"
  ultimately show ?thesis
    by (cases "requiredUsdc s") (simp_all add: hasSufficientBalance_def num_ge_def)
qed

theorem custodial_sufficiency_witness:
  "walletType circle_card = Circle \<and> circleBalance circle_card = Some ''100.00''
   \<and> parseFloat ''100.00'' = Fin 100 \<and> requiredUsdc circle_card = Fin 50
   \<and> hasSufficientBalance circle_card 50000000"
proof -
  have h1: "walletType circle_card = Circle" by (simp add: circle_card_def)
  have h2: "circleBalance circle_card = Some ''100.00''" by (simp add: circle_card_def)
  have p: "parseFloat ''100.00'' = Fin 100" by code_simp
  have r: "requiredUsdc circle_card = Fin 50" by code_simp
  from custodial_sufficiency_compares_parsed_decimals[OF h1 h2, of 50000000] h1 h2 p r
  show ?thesis by (simp add: num_ge_def)
qed

section \<open>The amount paid and the credits bought\<close>

text \<open>A binary64 value times one is that value.\<close>

lemma times_one_exact: "round_double q = Fin q \<Longrightarrow> fmul (Fin q) (Fin 1) = Fin q"
  by simp

text \<open>
  C7, as stated, fails: the payment route takes \<open>credits\<close> and \<open>usdcAmount\<close> from the
  request body as two fields and does not compare them. A signed-in client that posts
  100 credits with a usdcAmount of 1 has 1000000 atoms (1 USDC) transferred, and the record
  carries 100 credits against 1 USDC, while 100 credits at the fixed rate are 100 USDC.
\<close>

theorem route_accepts_unrelated_amount:
  "map credit_amount (inserted_records (snd (POST world_unrelated_amount))) = [JNum (Fin 100)]
   \<and> map amount_usdc (inserted_records (snd (POST world_unrelated_amount))) = [JNum (Fin 1)]
   \<and> map amounts (created_transactions (snd (POST world_unrelated_amount))) = [[''1000000'']]
   \<and> fmul (Fin 100) USDC_PER_CREDIT = Fin 100"
  by code_simp

text \<open>
  C7, amended. Every request that the purchase card sends carries the amount derived from
  the credit count: the body posted to the payment route and the body posted to persist an
  external payment both have \<open>usdcAmount = creditsToPurchase * 1\<close>, and the on-chain transfer
  of the external path is for that amount in atoms. The payment route persists the
  \<open>usdcAmount\<close> and the \<open>credits\<close> of the request body as it received them.
\<close>

theorem usdc_amount_derived_by_card_echoed_by_route:
  "(PostCirclePayment b \<in> set (snd (click sc)) \<longrightarrow>
      credits b = json_number (creditsToPurchase sc)
      \<and> usdcAmount b = json_number (fmul (creditsToPurchase sc) (Fin 1)))
   \<and> (WriteContractTransfer a d v \<in> set (snd (click se)) \<longrightarrow>
        BigInt (Math_round (fmul (fmul (creditsToPurchase se) (Fin 1)) (Fin 1000000))) = Inr v)
   \<and> (PostTransactions t \<in> set (handleExternalPurchase_submitted se hash) \<longrightarrow>
        credits t = json_number (creditsToPurchase se)
        \<and> usdcAmount t = json_number (fmul (creditsToPurchase se) (Fin 1)))
   \<and> (r \<in> set (inserted_records (snd (POST w))) \<longrightarrow>
        (\<exists>body. req_json w = Inr body \<and> amount_usdc r = usdcAmount body
                 \<and> credit_amount r = credits body))"
proof -
  have "BigInt (Math_round (fmul (fmul (creditsToPurchase se) (Fin 1)) (Fin 1000000))) = Inr v"
    if "WriteContractTransfer a d v \<in> set (snd (click se))"
    using click_external_amount[OF that]
    by (simp add: requiredUsdcMicro_def requiredUsdc_def USDC_PER_CREDIT_def)
  moreover have "credits t = json_number (creditsToPurchase se)
        \<and> usdcAmount t = json_number (fmul (creditsToPurchase se) (Fin 1))"
    if "PostTransactions t \<in> set (handleExternalPurchase_submitted se hash)"
    using that
    by (auto simp: handleExternalPurchase_submitted_def requiredUsdc_def USDC_PER_CREDIT_def)
  ultimately show ?thesis
    using click_circle_body[of b sc] POST_inserted_echo[of r w] by blast
qed

theorem usdc_amount_derived_witness:
  "PostCirclePayment (body_of 50 50) \<in> set (snd (click circle_card))
   \<and> credits (body_of 50 50) = json_number (creditsToPurchase circle_card)
   \<and> usdcAmount (body_of 50 50) = json_number (fmul (creditsToPurchase circle_card) (Fin 1))
   \<and> WriteContractTransfer (Some ''0xusdc'') (Some ''0xadmin'') 10000000
        \<in> set (snd (click funded_external_card))
   \<and> BigInt (Math_round (fmul (fmul (creditsToPurchase funded_external_card) (Fin 1))
                            (Fin 1000000))) = Inr 10000000
   \<and> PostTransactions example_persist_body
        \<in> set (handleExternalPurchase_submitted funded_external_card ''0xhash'')
   \<and> usdcAmount example_persist_body
        = json_number (fmul (creditsToPurchase funded_external_card) (Fin 1))
   \<and> example_record \<in> set (inserted_records (snd (POST world_paying_100)))
   \<and> (\<exists>body. req_json world_paying_100 = Inr body
        \<and> amount_usdc example_record = usdcAmount body
        \<and> credit_amount example_record = credits body)"
proof -
  have h1: "PostCirclePayment (body_of 50 50) \<in> set (snd (click circle_card))"
    by code_simp
  have h2: "WriteContractTransfer (Some ''0xusdc'') (Some ''0xadmin'') 10000000
              \<in> set (snd (click funded_external_card))"
    by code_simp
  have h3: "PostTransactions example_persist_body
              \<in> set (handleExternalPurchase_submitted funded_external_card ''0xhash'')"
    by code_simp
  have h4: "example_record \<in> set (inserted_records (snd (POST world_paying_100)))"
    by code_simp
  from usdc_amount_derived_by_card_echoed_by_route
         [of "body_of 50 50" circle_card "Some ''0xusdc''" "Some ''0xadmin''" 10000000
             funded_external_card example_persist_body "''0xhash''" example_record
             world_paying_100]
       h1 h2 h3 h4
  show ?thesis by blast
qed

end
